theory Spec2Isabelle
  imports
    Complex_Main
    "HOL-Library.Multiset"
    "HOL-Library.Char_ord"
    "HOL-Library.List_Lexorder"
begin

section \<open>Skills inventory: feature building, scaling, cluster search, summaries\<close>

text \<open>
  The repository is glue code around pandas, scikit-learn, Spark and Athena.
  The embedding follows the three source files:
  \<^item> \<^verbatim>\<open>src/lambda/etl_job.py\<close>: the proficiency-to-score column;
  \<^item> \<^verbatim>\<open>src/sagemaker/train_clustering.py\<close>: \<^verbatim>\<open>create_skill_features\<close> and
    \<^verbatim>\<open>train_kmeans\<close>;
  \<^item> \<^verbatim>\<open>src/lambda/handler.py\<close>: the Athena aggregation query,
    \<^verbatim>\<open>prepare_clustering_data\<close> and \<^verbatim>\<open>perform_clustering\<close>.

  Floating-point numbers are read as exact reals (there is no NaN among the
  reals; a missing number is \<open>None\<close> where the source can produce one).
  Library calls whose algorithm is not part of the repository (Lloyd's
  iteration inside \<^verbatim>\<open>KMeans\<close>, \<^verbatim>\<open>silhouette_score\<close>, \<^verbatim>\<open>TfidfVectorizer\<close>) are
  parameters of the model; each may raise, so each returns a sum type.
\<close>

subsection \<open>Exceptions\<close>

datatype error = ValueError | KeyError | RuntimeError

subsection \<open>Tables\<close>

text \<open>
  A row of the employee-skill table with the columns the source reads:
  \<^verbatim>\<open>employee_id\<close>, \<^verbatim>\<open>skill\<close>, \<^verbatim>\<open>proficiency_score\<close>, \<^verbatim>\<open>years_experience\<close>.
  The cell types are parameters: a DataFrame read from CSV may hold missing cells
  (\<open>'s = string option\<close>, \<open>'n = int option\<close>), the rows of the Glue table written by
  the ETL job are taken with every cell present (\<open>'s = string\<close>, \<open>'n = int\<close>).
\<close>

record ('s, 'n) skills_row =
  employee_id :: 's
  skill :: 's
  proficiency_score :: 'n
  years_experience :: 'n

text \<open>
  A row of the per-skill feature table, columns
  \<^verbatim>\<open>['skill', 'employee_count', 'avg_proficiency', 'avg_experience']\<close>
  (the column \<^verbatim>\<open>skill\<close> is the field \<open>skill_name\<close> here). The averages are
  \<open>real option\<close> in the pandas path (NaN is \<open>None\<close>) and \<open>real\<close> in the handler.
\<close>

record 'v skill_features =
  skill_name :: string
  employee_count :: int
  avg_proficiency :: 'v
  avg_experience :: 'v

type_synonym matrix = "real list list"

subsection \<open>Random state of scikit-learn estimators\<close>

text \<open>
  \<^verbatim>\<open>check_random_state(seed)\<close>: an integer seed builds a fresh generator from that
  seed; \<^verbatim>\<open>None\<close> hands out the process-wide generator, whose state \<open>w\<close> differs
  from run to run.
\<close>

datatype 'w rng = RandomState int | GlobalRandomState 'w

definition check_random_state :: "'w \<Rightarrow> int option \<Rightarrow> 'w rng" where
  "check_random_state w seed =
     (case seed of None \<Rightarrow> GlobalRandomState w | Some s \<Rightarrow> RandomState s)"

text \<open>
  \<^verbatim>\<open>KMeans(n_clusters=k, random_state=rs, n_init=n).fit_predict(X)\<close>. The iteration
  itself, \<open>lloyd\<close>, is a parameter: a function of the generator, the cluster count,
  the number of restarts and the matrix, returning one label per row or raising.
\<close>

type_synonym 'w kmeans = "'w rng \<Rightarrow> nat \<Rightarrow> nat \<Rightarrow> matrix \<Rightarrow> error + nat list"

type_synonym silhouette = "matrix \<Rightarrow> nat list \<Rightarrow> error + real"

definition KMeans_fit_predict ::
  "'w kmeans \<Rightarrow> 'w \<Rightarrow> nat \<Rightarrow> int option \<Rightarrow> nat \<Rightarrow> matrix \<Rightarrow> error + nat list" where
  "KMeans_fit_predict lloyd w n_clusters random_state n_init X =
     lloyd (check_random_state w random_state) n_clusters n_init X"

subsection \<open>handler.py: the search loop of \<open>perform_clustering\<close>\<close>

text \<open>
  Lines 150--160. The loop state is \<open>(best_k, best_score)\<close>, started at \<open>(5, -1)\<close>;
  \<^verbatim>\<open>range(3, 8)\<close> is \<open>[3..<8]\<close>. An exception of either library call leaves the loop.
\<close>

fun k_search ::
  "'w kmeans \<Rightarrow> silhouette \<Rightarrow> 'w \<Rightarrow> matrix \<Rightarrow> nat list \<Rightarrow> nat \<times> real \<Rightarrow> error + nat \<times> real" where
  "k_search lloyd silhouette w X [] (best_k, best_score) = Inr (best_k, best_score)"
| "k_search lloyd silhouette w X (k # ks) (best_k, best_score) =
     (case KMeans_fit_predict lloyd w k (Some 42) 10 X of
        Inl e \<Rightarrow> Inl e
      | Inr labels \<Rightarrow>
          (case silhouette X labels of
             Inl e \<Rightarrow> Inl e
           | Inr score \<Rightarrow>
               if score > best_score
               then k_search lloyd silhouette w X ks (k, score)
               else k_search lloyd silhouette w X ks (best_k, best_score)))"

definition search_range :: "nat list" where
  "search_range = [3..<8]"

definition find_best_k :: "'w kmeans \<Rightarrow> silhouette \<Rightarrow> 'w \<Rightarrow> matrix \<Rightarrow> error + nat \<times> real" where
  "find_best_k lloyd silhouette w X =
     k_search lloyd silhouette w X search_range (5, - 1)"

subsection \<open>pandas: \<open>groupby\<close> and the aggregations\<close>

text \<open>
  \<^verbatim>\<open>df.groupby(key)\<close> with pandas' defaults: the groups come out in ascending key
  order and each keeps its rows in their original order. The rows are visited once,
  each being appended to the group of its key in a key-sorted association list.
\<close>

fun group_insert :: "'k::linorder \<Rightarrow> 'r \<Rightarrow> ('k \<times> 'r list) list \<Rightarrow> ('k \<times> 'r list) list" where
  "group_insert k r [] = [(k, [r])]"
| "group_insert k r ((k', rs) # gs) =
     (if k = k' then (k', rs @ [r]) # gs
      else if k < k' then (k, [r]) # (k', rs) # gs
      else (k', rs) # group_insert k r gs)"

definition groupby :: "('r \<Rightarrow> 'k::linorder) \<Rightarrow> 'r list \<Rightarrow> ('k \<times> 'r list) list" where
  "groupby key rows = foldl (\<lambda>gs r. group_insert (key r) r gs) [] rows"

text \<open>\<^verbatim>\<open>'count'\<close>: the number of non-missing cells of a column.\<close>

definition agg_count :: "'a option list \<Rightarrow> int" where
  "agg_count col = int (length (filter (\<lambda>v. v \<noteq> None) col))"

text \<open>
  \<^verbatim>\<open>'mean'\<close> of a column with missing cells: the mean of the cells present, NaN
  (\<open>None\<close>) when there is none.
\<close>

definition agg_mean :: "int option list \<Rightarrow> real option" where
  "agg_mean col =
     (let present = map the (filter (\<lambda>v. v \<noteq> None) col)
      in if present = [] then None
         else Some (real_of_int (sum_list present) / real (length present)))"

text \<open>\<^verbatim>\<open>'mean'\<close> of a column of numbers; the groups it is applied to are never empty.\<close>

definition mean :: "real list \<Rightarrow> real" where
  "mean col = sum_list col / real (length col)"

subsection \<open>etl_job.py: the \<open>proficiency_score\<close> column\<close>

text \<open>
  Lines 42--49, applied to the trimmed, upper-cased \<^verbatim>\<open>proficiency\<close> cell. In Spark a
  comparison with a null cell is not true, so a null cell falls through to
  \<^verbatim>\<open>otherwise(2)\<close> as an unlisted word does.
\<close>

definition proficiency_score_of :: "string option \<Rightarrow> int" where
  "proficiency_score_of proficiency =
     (if proficiency = Some ''BEGINNER'' then 1
      else if proficiency = Some ''INTERMEDIATE'' then 2
      else if proficiency = Some ''ADVANCED'' then 3
      else if proficiency = Some ''EXPERT'' then 4
      else 2)"

subsection \<open>train_clustering.py: \<open>create_skill_features\<close>\<close>

text \<open>
  Lines 25--31: \<^verbatim>\<open>df.groupby('skill').agg({'employee_id': 'count',
  'proficiency_score': 'mean', 'years_experience': 'mean'}).reset_index()\<close>.
  pandas leaves rows with a missing key out of every group.
\<close>

definition skill_agg ::
  "(string option, int option) skills_row list \<Rightarrow> real option skill_features list" where
  "skill_agg df =
     map (\<lambda>(s, rows).
            \<lparr>skill_name = s,
             employee_count = agg_count (map employee_id rows),
             avg_proficiency = agg_mean (map proficiency_score rows),
             avg_experience = agg_mean (map years_experience rows)\<rparr>)
         (groupby (\<lambda>r. the (skill r)) (filter (\<lambda>r. skill r \<noteq> None) df))"

text \<open>Line 38: the three numeric columns as a matrix (NaN cells stay NaN).\<close>

definition numeric_features :: "real option skill_features list \<Rightarrow> real option list list" where
  "numeric_features agg =
     map (\<lambda>r. [Some (real_of_int (employee_count r)), avg_proficiency r, avg_experience r]) agg"

text \<open>
  Lines 22--40. \<^verbatim>\<open>TfidfVectorizer(max_features=50).fit_transform\<close> is the parameter
  \<open>tfidf_fit_transform\<close>: from the skill names it gives the text features and the
  fitted vectorizer, or raises.
\<close>

definition create_skill_features ::
  "(string list \<Rightarrow> error + 'm \<times> 't) \<Rightarrow> (string option, int option) skills_row list \<Rightarrow>
   error + real option skill_features list \<times> real option list list \<times> 'm \<times> 't" where
  "create_skill_features tfidf_fit_transform df =
     (let agg = skill_agg df in
      case tfidf_fit_transform (map skill_name agg) of
        Inl e \<Rightarrow> Inl e
      | Inr (skill_text_features, tfidf) \<Rightarrow>
          Inr (agg, numeric_features agg, skill_text_features, tfidf))"

subsection \<open>train_clustering.py: \<open>train_kmeans\<close>\<close>

text \<open>A fitted \<^verbatim>\<open>KMeans\<close> object, as far as the script keeps it.\<close>

record kmeans_model =
  n_clusters :: nat
  fitted_labels :: "nat list"

text \<open>
  Lines 45--63; the \<^verbatim>\<open>print\<close> calls are left out. \<^verbatim>\<open>len(set(labels))\<close> is
  \<open>length (remdups labels)\<close>. The loop state is \<open>(best_model, best_k, best_score)\<close>.
\<close>

fun train_loop ::
  "'w kmeans \<Rightarrow> silhouette \<Rightarrow> 'w \<Rightarrow> matrix \<Rightarrow> nat list \<Rightarrow>
   kmeans_model option \<times> nat \<times> real \<Rightarrow> error + kmeans_model option \<times> nat \<times> real" where
  "train_loop lloyd silhouette w X [] (best_model, best_k, best_score) =
     Inr (best_model, best_k, best_score)"
| "train_loop lloyd silhouette w X (k # ks) (best_model, best_k, best_score) =
     (case KMeans_fit_predict lloyd w k (Some 42) 10 X of
        Inl e \<Rightarrow> Inl e
      | Inr labels \<Rightarrow>
          if length (remdups labels) > 1
          then (case silhouette X labels of
                  Inl e \<Rightarrow> Inl e
                | Inr score \<Rightarrow>
                    if score > best_score
                    then train_loop lloyd silhouette w X ks
                           (Some \<lparr>n_clusters = k, fitted_labels = labels\<rparr>, k, score)
                    else train_loop lloyd silhouette w X ks (best_model, best_k, best_score))
          else train_loop lloyd silhouette w X ks (best_model, best_k, best_score))"

definition train_kmeans ::
  "'w kmeans \<Rightarrow> silhouette \<Rightarrow> 'w \<Rightarrow> matrix \<Rightarrow> nat list \<Rightarrow>
   error + kmeans_model option \<times> nat \<times> real" where
  "train_kmeans lloyd silhouette w features n_clusters_range =
     train_loop lloyd silhouette w features n_clusters_range (None, 5, - 1)"

text \<open>The default of the parameter \<^verbatim>\<open>n_clusters_range\<close>: \<^verbatim>\<open>range(3, 10)\<close>.\<close>

definition default_n_clusters_range :: "nat list" where
  "default_n_clusters_range = [3..<10]"

subsection \<open>handler.py: the Athena aggregation\<close>

text \<open>
  Lines 69--77, the query
  \<^verbatim>\<open>SELECT skill, COUNT(DISTINCT employee_id), AVG(proficiency_score),
  AVG(years_experience) FROM skills_data GROUP BY skill\<close>
  over a table whose cells are all present. SQL fixes no row order for the result;
  \<open>skills_query\<close> lists it by ascending skill, and the DataFrame the handler works on
  is any reordering of it.
\<close>

definition skills_query :: "(string, int) skills_row list \<Rightarrow> real skill_features list" where
  "skills_query skills_data =
     map (\<lambda>(s, rows).
            \<lparr>skill_name = s,
             employee_count = int (length (remdups (map employee_id rows))),
             avg_proficiency = real_of_int (sum_list (map proficiency_score rows)) / real (length rows),
             avg_experience = real_of_int (sum_list (map years_experience rows)) / real (length rows)\<rparr>)
         (groupby skill skills_data)"

subsection \<open>scikit-learn: \<open>StandardScaler\<close>\<close>

text \<open>
  \<^verbatim>\<open>StandardScaler().fit_transform(X)\<close> as scikit-learn documents it:
  \<open>z = (x - u) / s\<close> per column, with \<open>u\<close> the column mean and \<open>s\<close> the population
  standard deviation; a standard deviation of zero is replaced by 1
  (\<^verbatim>\<open>_handle_zeros_in_scale\<close>); a matrix without rows is refused with \<^verbatim>\<open>ValueError\<close>.
\<close>

definition column :: "matrix \<Rightarrow> nat \<Rightarrow> real list" where
  "column X d = map (\<lambda>row. row ! d) X"

definition var :: "real list \<Rightarrow> real" where
  "var col = sum_list (map (\<lambda>x. (x - mean col)\<^sup>2) col) / real (length col)"

definition handle_zeros_in_scale :: "real \<Rightarrow> real" where
  "handle_zeros_in_scale s = (if s = 0 then 1 else s)"

definition scale :: "real list \<Rightarrow> real" where
  "scale col = handle_zeros_in_scale (sqrt (var col))"

definition StandardScaler_fit_transform :: "matrix \<Rightarrow> error + matrix" where
  "StandardScaler_fit_transform X =
     (if X = [] then Inl ValueError
      else Inr (map (\<lambda>row. map (\<lambda>d. (row ! d - mean (column X d)) / scale (column X d))
                               [0..<length row]) X))"

subsection \<open>handler.py: \<open>prepare_clustering_data\<close>\<close>

record clustering_data =
  features :: matrix
  skills :: "string list"
  original_data :: "real skill_features list"

text \<open>Lines 123--139.\<close>

definition feature_values :: "real skill_features list \<Rightarrow> matrix" where
  "feature_values df =
     map (\<lambda>r. [real_of_int (employee_count r), avg_proficiency r, avg_experience r]) df"

definition prepare_clustering_data :: "real skill_features list \<Rightarrow> error + clustering_data" where
  "prepare_clustering_data df =
     (case StandardScaler_fit_transform (feature_values df) of
        Inl e \<Rightarrow> Inl e
      | Inr X_scaled \<Rightarrow>
          Inr \<lparr>features = X_scaled, skills = map skill_name df, original_data = df\<rparr>)"

subsection \<open>handler.py: \<open>perform_clustering\<close>\<close>

record result_row = "real skill_features" +
  cluster_id :: nat

record cluster_stat =
  stat_cluster_id :: nat
  num_skills :: int
  total_employees :: int
  avg_cluster_proficiency :: real
  avg_cluster_experience :: real

text \<open>The returned dictionary; its key \<^verbatim>\<open>'skills'\<close> is the field \<open>result_df\<close>.\<close>

record clusters =
  result_df :: "result_row list"
  cluster_stats :: "cluster_stat list"
  cluster_labels :: "nat list"
  silhouette_score :: real

text \<open>Lines 167--168: the copy of the feature table with the new column.\<close>

definition add_cluster_id :: "real skill_features list \<Rightarrow> nat list \<Rightarrow> result_row list" where
  "add_cluster_id df labels =
     map (\<lambda>(r, c). \<lparr>skill_name = skill_name r, employee_count = employee_count r,
                     avg_proficiency = avg_proficiency r, avg_experience = avg_experience r,
                     cluster_id = c\<rparr>)
         (zip df labels)"

text \<open>
  Lines 171--179. \<^verbatim>\<open>'skill': 'count'\<close> counts the non-missing skill cells; the
  handler's skill column holds strings only, so it counts the rows of the group.
\<close>

definition cluster_stats_of :: "result_row list \<Rightarrow> cluster_stat list" where
  "cluster_stats_of df =
     map (\<lambda>(c, rows).
            \<lparr>stat_cluster_id = c,
             num_skills = int (length rows),
             total_employees = sum_list (map employee_count rows),
             avg_cluster_proficiency = mean (map avg_proficiency rows),
             avg_cluster_experience = mean (map avg_experience rows)\<rparr>)
         (groupby cluster_id df)"

text \<open>
  Lines 142--186. Assigning a column whose length differs from the table's is a
  \<^verbatim>\<open>ValueError\<close> in pandas.
\<close>

definition perform_clustering ::
  "'w kmeans \<Rightarrow> silhouette \<Rightarrow> 'w \<Rightarrow> clustering_data \<Rightarrow> error + clusters" where
  "perform_clustering lloyd silhouette w data =
     (let X = features data in
      case find_best_k lloyd silhouette w X of
        Inl e \<Rightarrow> Inl e
      | Inr (best_k, best_score) \<Rightarrow>
          (case KMeans_fit_predict lloyd w best_k (Some 42) 10 X of
             Inl e \<Rightarrow> Inl e
           | Inr labels \<Rightarrow>
               if length labels \<noteq> length (original_data data) then Inl ValueError
               else
                 let df = add_cluster_id (original_data data) labels in
                 Inr \<lparr>result_df = df,
                      cluster_stats = cluster_stats_of df,
                      cluster_labels = labels,
                      silhouette_score = best_score\<rparr>))"

text \<open>Lines 41--45 of \<^verbatim>\<open>lambda_handler\<close>: prepare, then cluster.\<close>

definition clustering_run ::
  "'w kmeans \<Rightarrow> silhouette \<Rightarrow> 'w \<Rightarrow> real skill_features list \<Rightarrow> error + clusters" where
  "clustering_run lloyd silhouette w skills_data =
     (case prepare_clustering_data skills_data of
        Inl e \<Rightarrow> Inl e
      | Inr prepared_data \<Rightarrow> perform_clustering lloyd silhouette w prepared_data)"

text \<open>
  Lines 154--156 on their own: the score of one candidate \<open>k\<close>, or the exception
  that fitting or scoring it raises.
\<close>

definition candidate_score ::
  "'w kmeans \<Rightarrow> silhouette \<Rightarrow> 'w \<Rightarrow> matrix \<Rightarrow> nat \<Rightarrow> error + real" where
  "candidate_score lloyd silhouette w X k =
     (case KMeans_fit_predict lloyd w k (Some 42) 10 X of
        Inl e \<Rightarrow> Inl e
      | Inr labels \<Rightarrow> silhouette X labels)"

subsection \<open>handler.py: the summary of \<open>store_clustering_results\<close>\<close>



subsection \<open>Library instances for concrete runs\<close>

text \<open>
  The theorems below hold for every \<open>lloyd\<close> and every \<open>silhouette\<close>. A run on
  concrete data needs concrete ones. \<open>sample_lloyd\<close> and \<open>sample_silhouette\<close> keep the
  input checks scikit-learn documents: \<^verbatim>\<open>KMeans\<close> refuses a matrix with fewer rows
  than clusters (\<^verbatim>\<open>n_samples should be >= n_clusters\<close>), and \<^verbatim>\<open>silhouette_score\<close>
  refuses a labelling whose number of distinct labels is not between 2 and the number
  of rows minus 1. Beyond the checks they are simple: equal rows get equal labels,
  distinct rows are dealt out over the \<open>k\<close> labels in turn, and the score is the
  reciprocal of the number of labels.
\<close>

definition first_index :: "'a list \<Rightarrow> 'a \<Rightarrow> nat" where
  "first_index xs x = length (takeWhile (\<lambda>y. y \<noteq> x) xs)"

definition sample_lloyd :: "unit kmeans" where
  "sample_lloyd g k n_init X =
     (if length X < k then Inl ValueError
      else Inr (map (\<lambda>row. first_index (remdups X) row mod k) X))"

definition sample_silhouette :: silhouette where
  "sample_silhouette X labels =
     (let n_labels = length (remdups labels)
      in if n_labels < 2 \<or> length X \<le> n_labels then Inl ValueError
         else Inr (1 / real n_labels))"

text \<open>
  Three feature tables and the matrices \<^verbatim>\<open>prepare_clustering_data\<close> makes of them:
  eight skills that differ, two skills, and nine skills with the same numbers.
\<close>

definition sample_df :: "real skill_features list" where
  "sample_df =
     [\<lparr>skill_name = ''AWS'', employee_count = 1, avg_proficiency = 1, avg_experience = 2\<rparr>,
      \<lparr>skill_name = ''DOCKER'', employee_count = 1, avg_proficiency = 1, avg_experience = 4\<rparr>,
      \<lparr>skill_name = ''EXCEL'', employee_count = 1, avg_proficiency = 3, avg_experience = 2\<rparr>,
      \<lparr>skill_name = ''GIT'', employee_count = 1, avg_proficiency = 3, avg_experience = 4\<rparr>,
      \<lparr>skill_name = ''JAVA'', employee_count = 3, avg_proficiency = 1, avg_experience = 2\<rparr>,
      \<lparr>skill_name = ''LINUX'', employee_count = 3, avg_proficiency = 1, avg_experience = 4\<rparr>,
      \<lparr>skill_name = ''PYTHON'', employee_count = 3, avg_proficiency = 3, avg_experience = 2\<rparr>,
      \<lparr>skill_name = ''SQL'', employee_count = 3, avg_proficiency = 3, avg_experience = 4\<rparr>]"

definition sample_matrix :: matrix where
  "sample_matrix =
     [[- 1, - 1, - 1], [- 1, - 1, 1], [- 1, 1, - 1], [- 1, 1, 1],
      [1, - 1, - 1], [1, - 1, 1], [1, 1, - 1], [1, 1, 1]]"

definition sample_data :: clustering_data where
  "sample_data =
     \<lparr>features = sample_matrix, skills = map skill_name sample_df, original_data = sample_df\<rparr>"

definition two_row_df :: "real skill_features list" where
  "two_row_df =
     [\<lparr>skill_name = ''PYTHON'', employee_count = 3, avg_proficiency = 3, avg_experience = 4\<rparr>,
      \<lparr>skill_name = ''SQL'', employee_count = 1, avg_proficiency = 1, avg_experience = 2\<rparr>]"

definition two_row_matrix :: matrix where
  "two_row_matrix = [[1, 1, 1], [- 1, - 1, - 1]]"

definition constant_df :: "real skill_features list" where
  "constant_df =
     map (\<lambda>s. \<lparr>skill_name = s, employee_count = 2, avg_proficiency = 3, avg_experience = 5\<rparr>)
       [''AWS'', ''DOCKER'', ''EXCEL'', ''GIT'', ''JAVA'', ''LINUX'', ''PYTHON'', ''R'', ''SQL'']"

definition constant_matrix :: matrix where
  "constant_matrix = replicate 9 [0, 0, 0]"

text \<open>
  A table \<^verbatim>\<open>skills_data\<close> whose aggregation is \<open>sample_df\<close>: per skill its
  employees, the proficiency score and the years of experience they share.
\<close>

definition sample_table :: "(string, int) skills_row list" where
  "sample_table =
     concat (map (\<lambda>(s, es, p, y).
                    map (\<lambda>e. \<lparr>employee_id = e, skill = s,
                               proficiency_score = p, years_experience = y\<rparr>) es)
       [(''SQL'', [''E1'', ''E2'', ''E3''], 3, 4),
        (''AWS'', [''E1''], 1, 2),
        (''DOCKER'', [''E2''], 1, 4),
        (''PYTHON'', [''E1'', ''E2'', ''E4''], 3, 2),
        (''EXCEL'', [''E3''], 3, 2),
        (''GIT'', [''E4''], 3, 4),
        (''JAVA'', [''E2'', ''E3'', ''E4''], 1, 2),
        (''LINUX'', [''E1'', ''E3'', ''E4''], 1, 4)])"




definition duplicate_records :: "(string option, int option) skills_row list" where
  "duplicate_records =
     [\<lparr>employee_id = Some ''E1'', skill = Some ''PYTHON'',
       proficiency_score = Some 3, years_experience = Some 5\<rparr>,
      \<lparr>employee_id = Some ''E1'', skill = Some ''PYTHON'',
       proficiency_score = Some 4, years_experience = Some 5\<rparr>]"

definition duplicate_table :: "(string, int) skills_row list" where
  "duplicate_table =
     [\<lparr>employee_id = ''E1'', skill = ''PYTHON'', proficiency_score = 3, years_experience = 5\<rparr>,
      \<lparr>employee_id = ''E1'', skill = ''PYTHON'', proficiency_score = 4, years_experience = 5\<rparr>]"

definition incomplete_records :: "(string option, int option) skills_row list" where
  "incomplete_records =
     [\<lparr>employee_id = Some ''E1'', skill = Some ''PYTHON'',
       proficiency_score = None, years_experience = Some 5\<rparr>,
      \<lparr>employee_id = None, skill = Some ''PYTHON'',
       proficiency_score = Some 3, years_experience = None\<rparr>,
      \<lparr>employee_id = Some ''E2'', skill = None,
       proficiency_score = Some 4, years_experience = Some 2\<rparr>]"

definition incomplete_features :: "real option skill_features" where
  "incomplete_features =
     \<lparr>skill_name = ''PYTHON'', employee_count = 1,
      avg_proficiency = Some 3, avg_experience = Some 5\<rparr>"

text \<open>
  A vectorizer for concrete runs: every skill name is one term of the vocabulary,
  and an empty vocabulary is refused, as \<^verbatim>\<open>TfidfVectorizer\<close> refuses it.
\<close>

definition sample_tfidf :: "string list \<Rightarrow> error + nat list list \<times> string list" where
  "sample_tfidf names =
     (if names = [] then Inl ValueError
      else Inr (map (\<lambda>n. map (\<lambda>v. if v = n then 1 else 0) names) names, names))"

section \<open>Properties\<close>

subsection \<open>Grouping\<close>

lemma group_insert_map:
  "sorted_wrt (<) ks \<Longrightarrow>
   group_insert k r (map (\<lambda>k'. (k', f k')) ks) =
   map (\<lambda>k'. (k', if k' = k then (if k \<in> set ks then f k else []) @ [r] else f k'))
       (if k \<in> set ks then ks else insort k ks)"
  by (induction ks) (auto simp: insort_is_Cons)

lemma groupby_snoc: "groupby key (rows @ [r]) = group_insert (key r) r (groupby key rows)"
  by (simp add: groupby_def)

lemma sorted_list_of_set_insert_key:
  "finite A \<Longrightarrow> sorted_list_of_set (insert k A) =
     (if k \<in> A then sorted_list_of_set A else insort k (sorted_list_of_set A))"
  by (cases "k \<in> A") (simp_all add: insert_absorb del: sorted_list_of_set_insert_remove)

text \<open>
  What the single pass computes: one group per key that occurs, in ascending key
  order, holding the rows of that key in their original order.
\<close>

lemma groupby_eq:
  "groupby key rows =
   map (\<lambda>k. (k, filter (\<lambda>r. key r = k) rows)) (sorted_list_of_set (key ` set rows))"
proof (induction rows rule: rev_induct)
  case Nil
  show ?case by (simp add: groupby_def)
next
  case (snoc r rows)
  let ?ks = "sorted_list_of_set (key ` set rows)"
  have s: "sorted_wrt (<) ?ks" by (simp add: strict_sorted_iff)
  have nil: "filter (\<lambda>x. key x = key r) rows = []" if "key r \<notin> key ` set rows"
  proof -
    from that have "\<forall>x\<in>set rows. key x \<noteq> key r" by (metis imageI)
    then show ?thesis by (simp add: filter_empty_conv)
  qed
  have keys: "sorted_list_of_set (key ` set (rows @ [r])) =
      (if key r \<in> key ` set rows then ?ks else insort (key r) ?ks)"
    using sorted_list_of_set_insert_key [of "key ` set rows" "key r"]
    by (simp del: sorted_list_of_set_insert_remove)
  have in_set: "key r \<in> set ?ks \<longleftrightarrow> key r \<in> key ` set rows" by simp
  show ?case
    unfolding groupby_snoc snoc.IH group_insert_map[OF s] keys in_set
    by (auto simp: nil)
qed

subsection \<open>The search loop\<close>

lemma candidate_score_Inr:
  "candidate_score lloyd silhouette w X k = Inr s \<longleftrightarrow>
   (\<exists>labels. KMeans_fit_predict lloyd w k (Some 42) 10 X = Inr labels \<and> silhouette X labels = Inr s)"
  by (auto simp: candidate_score_def split: sum.splits)

text \<open>
  The loop over any candidate list from any starting state, when every candidate
  can be fitted and scored: the state moves to the first candidate that reaches the
  highest score, provided that score is above the starting one.
\<close>

lemma k_search_result:
  assumes "\<forall>k\<in>set ks. candidate_score lloyd silhouette w X k = Inr (sc k)"
  shows "k_search lloyd silhouette w X ks (bk, bs) =
         Inr (if \<exists>k\<in>set ks. sc k > bs
              then (the (find (\<lambda>k. sc k = Max (sc ` set ks)) ks), Max (sc ` set ks))
              else (bk, bs))"
  using assms
proof (induction ks arbitrary: bk bs)
  case Nil
  then show ?case by simp
next
  case (Cons k ks)
  from Cons.prems obtain labels where
    fit: "KMeans_fit_predict lloyd w k (Some 42) 10 X = Inr labels"
    and sil: "silhouette X labels = Inr (sc k)"
    by (auto simp: candidate_score_Inr)
  from Cons.prems have rest: "\<forall>k\<in>set ks. candidate_score lloyd silhouette w X k = Inr (sc k)"
    by simp
  note IH = Cons.IH [OF rest]
  have fin: "finite (sc ` set ks)" by simp
  show ?case
  proof (cases "sc k > bs")
    case True
    show ?thesis
    proof (cases "\<exists>j\<in>set ks. sc j > sc k")
      case True
      then obtain j where j: "j \<in> set ks" "sc j > sc k" by auto
      then have ne: "set ks \<noteq> {}" by auto
      have "sc j \<le> Max (sc ` set ks)" using j fin by (intro Max_ge) auto
      then have gt: "Max (sc ` set ks) > sc k" using j(2) by linarith
      then have mx: "Max (sc ` set (k # ks)) = Max (sc ` set ks)"
        using ne by (simp add: max_def)
      show ?thesis using True \<open>sc k > bs\<close> gt fit sil
        by (simp only: k_search.simps IH mx) auto
    next
      case False
      then have le: "\<forall>j\<in>set ks. sc j \<le> sc k" by auto
      have mx: "Max (sc ` set (k # ks)) = sc k"
        using le by (auto intro!: Max_eqI)
      show ?thesis using False \<open>sc k > bs\<close> fit sil
        by (simp only: k_search.simps IH mx) auto
    qed
  next
    case False
    then have kle: "sc k \<le> bs" by simp
    show ?thesis
    proof (cases "\<exists>j\<in>set ks. sc j > bs")
      case True
      then obtain j where j: "j \<in> set ks" "sc j > bs" by auto
      then have ne: "set ks \<noteq> {}" by auto
      have "sc j \<le> Max (sc ` set ks)" using j fin by (intro Max_ge) auto
      then have gt: "Max (sc ` set ks) > sc k" using j(2) kle by linarith
      then have mx: "Max (sc ` set (k # ks)) = Max (sc ` set ks)"
        using ne by (simp add: max_def)
      show ?thesis using True kle gt fit sil
        by (simp only: k_search.simps IH mx) auto
    next
      case False
      show ?thesis using False kle fit sil
        by (simp only: k_search.simps IH) auto
    qed
  qed
qed


lemma find_sorted_least:
  "sorted ks \<Longrightarrow> find P ks = Some k \<Longrightarrow> j \<in> set ks \<Longrightarrow> P j \<Longrightarrow> k \<le> j"
  by (induction ks) (auto split: if_splits)

lemma find_Some_in:
  "\<exists>k\<in>set ks. P k \<Longrightarrow> \<exists>k. find P ks = Some k \<and> k \<in> set ks \<and> P k"
  by (induction ks) auto

lemma search_range_eq: "search_range = [3, 4, 5, 6, 7]"
  by (simp add: search_range_def upt_rec)

lemma set_search_range: "set search_range = {3..7}"
  by (auto simp: search_range_def)

lemma find_best_k_result:
  assumes "\<forall>k\<in>{3..7}. candidate_score lloyd silhouette w X k = Inr (sc k)"
  shows "\<exists>best_k best_score.
           find_best_k lloyd silhouette w X = Inr (best_k, best_score) \<and>
           (if \<exists>k\<in>{3..7}. - 1 < sc k
            then best_k \<in> {3..7} \<and> sc best_k = best_score \<and>
                 (\<forall>k\<in>{3..7}. sc k \<le> best_score) \<and>
                 (\<forall>k\<in>{3..7}. sc k = best_score \<longrightarrow> best_k \<le> k)
            else best_k = 5 \<and> best_score = - 1)"
proof (cases "\<exists>k\<in>{3..7}. - 1 < sc k")
  case False
  with assms show ?thesis
    by (simp add: find_best_k_def k_search_result [where sc = sc] set_search_range)
next
  case True
  let ?M = "Max (sc ` set search_range)"
  have fin: "finite (sc ` set search_range)" and ne: "sc ` set search_range \<noteq> {}"
    by (simp_all add: search_range_eq)
  have "?M \<in> sc ` set search_range" using Max_in [OF fin ne] .
  then have "\<exists>k\<in>set search_range. sc k = ?M" by auto
  from find_Some_in [OF this] obtain b where
    b: "find (\<lambda>k. sc k = ?M) search_range = Some b" "b \<in> set search_range" "sc b = ?M"
    by blast
  have srt: "sorted search_range" by (simp add: search_range_eq)
  have least: "\<forall>k\<in>{3..7}. sc k = ?M \<longrightarrow> b \<le> k"
    using find_sorted_least [OF srt b(1)] by (simp add: set_search_range)
  have ub: "\<forall>k\<in>{3..7}. sc k \<le> ?M"
    using fin by (simp add: set_search_range)
  have "find_best_k lloyd silhouette w X = Inr (b, ?M)"
    using assms True b(1)
    by (simp add: find_best_k_def k_search_result [where sc = sc] set_search_range)
  with True b least ub show ?thesis
    by (simp add: set_search_range)
qed

subsection \<open>Seeding\<close>

lemma KMeans_fit_predict_seeded:
  "KMeans_fit_predict lloyd w k (Some seed) n_init X =
   KMeans_fit_predict lloyd w' k (Some seed) n_init X"
  by (simp add: KMeans_fit_predict_def check_random_state_def)

lemma k_search_seeded:
  "k_search lloyd silhouette w X ks st = k_search lloyd silhouette w' X ks st"
proof (induction ks arbitrary: st)
  case Nil
  show ?case by (cases st) simp
next
  case (Cons k ks)
  show ?case
    by (cases st)
       (simp add: Cons.IH KMeans_fit_predict_seeded [of lloyd w k 42 10 X w']
             split: sum.splits)
qed

lemma train_loop_seeded:
  "train_loop lloyd silhouette w X ks st = train_loop lloyd silhouette w' X ks st"
proof (induction ks arbitrary: st)
  case Nil
  show ?case by (cases st) auto
next
  case (Cons k ks)
  obtain bm bk bs where st: "st = (bm, bk, bs)" by (cases st)
  show ?case unfolding st
    by (simp add: Cons.IH KMeans_fit_predict_seeded [of lloyd w k 42 10 X w']
             split: sum.splits)
qed

subsection \<open>What a returning \<open>perform_clustering\<close> went through\<close>

lemma perform_clustering_Inr:
  assumes "perform_clustering lloyd silhouette w data = Inr out"
  obtains best_k best_score labels where
    "find_best_k lloyd silhouette w (features data) = Inr (best_k, best_score)"
    "KMeans_fit_predict lloyd w best_k (Some 42) 10 (features data) = Inr labels"
    "length labels = length (original_data data)"
    "out = \<lparr>result_df = add_cluster_id (original_data data) labels,
            cluster_stats = cluster_stats_of (add_cluster_id (original_data data) labels),
            cluster_labels = labels,
            silhouette_score = best_score\<rparr>"
  using assms
  by (auto simp: perform_clustering_def Let_def split: sum.splits prod.splits if_splits)


subsection \<open>The cluster statistics\<close>

lemma cluster_stats_of_eq:
  "cluster_stats_of df =
   map (\<lambda>c. \<lparr>stat_cluster_id = c,
              num_skills = int (length (filter (\<lambda>r. cluster_id r = c) df)),
              total_employees = sum_list (map employee_count (filter (\<lambda>r. cluster_id r = c) df)),
              avg_cluster_proficiency = mean (map avg_proficiency (filter (\<lambda>r. cluster_id r = c) df)),
              avg_cluster_experience = mean (map avg_experience (filter (\<lambda>r. cluster_id r = c) df))\<rparr>)
       (sorted_list_of_set (cluster_id ` set df))"
  by (simp add: cluster_stats_of_def groupby_eq comp_def)

lemma stat_cluster_ids:
  "map stat_cluster_id (cluster_stats_of df) = sorted_list_of_set (cluster_id ` set df)"
  by (simp add: cluster_stats_of_eq comp_def)

text \<open>The sizes of the groups add up to the number of rows.\<close>

lemma sum_group_sizes:
  "sum_list (map (\<lambda>k. length (filter (\<lambda>r. key r = k) xs)) (sorted_list_of_set (key ` set xs)))
   = length xs"
proof -
  let ?M = "mset (map key xs)"
  have c: "length (filter (\<lambda>r. key r = k) xs) = count ?M k" for k
    by (induction xs) auto
  have "sum_list (map (\<lambda>k. length (filter (\<lambda>r. key r = k) xs)) (sorted_list_of_set (key ` set xs)))
        = (\<Sum>k\<in>key ` set xs. count ?M k)"
    by (simp add: c sum_list_distinct_conv_sum_set)
  also have "\<dots> = size ?M"
    by (simp add: size_multiset_overloaded_eq)
  finally show ?thesis by simp
qed

lemma int_sum_list_map: "int (sum_list (map f xs)) = sum_list (map (\<lambda>x. int (f x)) xs)"
  by (induction xs) auto

lemma sum_num_skills:
  "sum_list (map num_skills (cluster_stats_of df)) = int (length df)"
proof -
  have "sum_list (map num_skills (cluster_stats_of df)) =
        int (sum_list (map (\<lambda>k. length (filter (\<lambda>r. cluster_id r = k) df))
                           (sorted_list_of_set (cluster_id ` set df))))"
    by (simp add: cluster_stats_of_eq comp_def int_sum_list_map)
  then show ?thesis by (simp only: sum_group_sizes)
qed

lemma once_in_distinct:
  "distinct (map f xs) \<Longrightarrow> c \<in> f ` set xs \<Longrightarrow> length (filter (\<lambda>x. f x = c) xs) = 1"
  by (induction xs) (auto simp: filter_empty_conv image_iff)

subsection \<open>The Athena aggregation\<close>

lemma skills_query_eq:
  "skills_query tbl =
   map (\<lambda>s. \<lparr>skill_name = s,
              employee_count = int (length (remdups (map employee_id (filter (\<lambda>r. skill r = s) tbl)))),
              avg_proficiency = real_of_int (sum_list (map proficiency_score (filter (\<lambda>r. skill r = s) tbl)))
                                / real (length (filter (\<lambda>r. skill r = s) tbl)),
              avg_experience = real_of_int (sum_list (map years_experience (filter (\<lambda>r. skill r = s) tbl)))
                                / real (length (filter (\<lambda>r. skill r = s) tbl))\<rparr>)
       (sorted_list_of_set (skill ` set tbl))"
  by (simp add: skills_query_def groupby_eq comp_def)

lemma skills_query_names:
  "map skill_name (skills_query tbl) = sorted_list_of_set (skill ` set tbl)"
  by (simp add: skills_query_eq comp_def)

text \<open>
  The query gives one row per skill of the table, with the number of distinct
  employees of the skill and the means of its scores and years.
\<close>

lemma skills_query_features:
  "distinct (map skill_name (skills_query tbl)) \<and>
   set (map skill_name (skills_query tbl)) = skill ` set tbl \<and>
   (\<forall>v\<in>set (skills_query tbl).
      let rows = filter (\<lambda>r. skill r = skill_name v) tbl in
        employee_count v = int (card (employee_id ` set rows)) \<and>
        avg_proficiency v = real_of_int (sum_list (map proficiency_score rows)) / real (length rows) \<and>
        avg_experience v = real_of_int (sum_list (map years_experience rows)) / real (length rows))"
proof -
  have rows: "\<forall>v\<in>set (skills_query tbl).
      let rows = filter (\<lambda>r. skill r = skill_name v) tbl in
        employee_count v = int (card (employee_id ` set rows)) \<and>
        avg_proficiency v = real_of_int (sum_list (map proficiency_score rows)) / real (length rows) \<and>
        avg_experience v = real_of_int (sum_list (map years_experience rows)) / real (length rows)"
    unfolding skills_query_eq by (auto simp: Let_def length_remdups_card_conv)
  with skills_query_names [of tbl] show ?thesis by simp
qed

subsection \<open>The result table and a returning run\<close>

lemma add_cluster_id_names:
  "length labels = length df \<Longrightarrow> map skill_name (add_cluster_id df labels) = map skill_name df"
  by (induction df labels rule: list_induct2') (auto simp: add_cluster_id_def)

lemma prepare_clustering_data_Inr:
  "prepare_clustering_data df = Inr data \<Longrightarrow>
   original_data data = df \<and> skills data = map skill_name df \<and> df \<noteq> []"
  by (auto simp: prepare_clustering_data_def StandardScaler_fit_transform_def feature_values_def
           split: sum.splits if_splits)

lemma clustering_run_Inr:
  assumes "clustering_run lloyd silhouette w df = Inr out"
  obtains labels where
    "length labels = length df"
    "result_df out = add_cluster_id df labels"
    "cluster_stats out = cluster_stats_of (add_cluster_id df labels)"
    "cluster_labels out = labels"
proof -
  from assms obtain data where
    p: "prepare_clustering_data df = Inr data"
    and r: "perform_clustering lloyd silhouette w data = Inr out"
    by (auto simp: clustering_run_def split: sum.splits)
  from p have od: "original_data data = df" by (simp add: prepare_clustering_data_Inr)
  from r od that show ?thesis
    by (elim perform_clustering_Inr) auto
qed

subsection \<open>The aggregation of \<open>create_skill_features\<close>\<close>

lemma skill_agg_eq:
  "skill_agg df =
   map (\<lambda>s. \<lparr>skill_name = s,
              employee_count = agg_count (map employee_id (filter (\<lambda>r. skill r = Some s) df)),
              avg_proficiency = agg_mean (map proficiency_score (filter (\<lambda>r. skill r = Some s) df)),
              avg_experience = agg_mean (map years_experience (filter (\<lambda>r. skill r = Some s) df))\<rparr>)
       (sorted_list_of_set {s. Some s \<in> skill ` set df})"
proof -
  have keys: "(\<lambda>r. the (skill r)) ` set (filter (\<lambda>r. skill r \<noteq> None) df) = {s. Some s \<in> skill ` set df}"
  proof (intro set_eqI iffI)
    fix s assume "s \<in> (\<lambda>r. the (skill r)) ` set (filter (\<lambda>r. skill r \<noteq> None) df)"
    then obtain r where "r \<in> set df" "skill r \<noteq> None" "s = the (skill r)" by auto
    then have "r \<in> set df" "skill r = Some s" by auto
    then show "s \<in> {s. Some s \<in> skill ` set df}" by (metis imageI mem_Collect_eq)
  next
    fix s assume "s \<in> {s. Some s \<in> skill ` set df}"
    then obtain r where r: "r \<in> set df" "skill r = Some s" by (auto simp: image_iff)
    then have "r \<in> set (filter (\<lambda>r. skill r \<noteq> None) df)" "the (skill r) = s" by auto
    then show "s \<in> (\<lambda>r. the (skill r)) ` set (filter (\<lambda>r. skill r \<noteq> None) df)"
      by (metis imageI)
  qed
  have grp: "filter (\<lambda>r. the (skill r) = s) (filter (\<lambda>r. skill r \<noteq> None) df)
             = filter (\<lambda>r. skill r = Some s) df" for s
    by (rule filter_cong [OF refl, THEN trans [OF filter_filter]]) auto
  show ?thesis
    unfolding skill_agg_def groupby_eq keys grp by (simp add: comp_def)
qed

lemma finite_skill_keys: "finite {s. Some s \<in> skill ` set df}"
proof -
  have "{s. Some s \<in> skill ` set df} = Some -` (skill ` set df)" by auto
  then show ?thesis by (simp add: finite_vimageI)
qed




subsection \<open>The scaler on a column without variance\<close>

lemma var_zero_all_mean:
  assumes "col \<noteq> []" and "var col = 0" and "x \<in> set col"
  shows "x = mean col"
proof -
  let ?sq = "map (\<lambda>x. (x - mean col)\<^sup>2) col"
  from assms(1,2) have "sum_list ?sq = 0" by (simp add: var_def)
  moreover have "\<forall>y\<in>set ?sq. 0 \<le> y" by auto
  ultimately have "\<forall>y\<in>set ?sq. y = 0"
    using sum_list_nonneg_eq_0_iff [of ?sq] by blast
  with assms(3) have "(x - mean col)\<^sup>2 = 0" by auto
  then show ?thesis by simp
qed

lemma scale_zero_variance: "var col = 0 \<Longrightarrow> scale col = 1"
  by (simp add: scale_def handle_zeros_in_scale_def)

subsection \<open>The loop of \<open>train_kmeans\<close>\<close>

lemma train_loop_skip:
  assumes "KMeans_fit_predict lloyd w k (Some 42) 10 X = Inr labels"
    and "length (remdups labels) < 2"
  shows "train_loop lloyd silhouette w X (k # ks) st = train_loop lloyd silhouette w X ks st"
  using assms by (cases st) auto

lemma train_loop_all_skipped:
  assumes "\<forall>k\<in>set ks. \<exists>labels. KMeans_fit_predict lloyd w k (Some 42) 10 X = Inr labels
                          \<and> length (remdups labels) < 2"
  shows "train_loop lloyd silhouette w X ks st = Inr st"
  using assms
proof (induction ks)
  case Nil
  show ?case by (cases st) auto
next
  case (Cons k ks)
  from Cons.prems obtain labels where
    "KMeans_fit_predict lloyd w k (Some 42) 10 X = Inr labels" "length (remdups labels) < 2"
    by auto
  from train_loop_skip [OF this] Cons show ?case by simp
qed

subsection \<open>The concrete tables\<close>

lemma skills_query_sample_table: "skills_query sample_table = sample_df"
  by code_simp

lemma prepare_sample_df: "prepare_clustering_data sample_df = Inr sample_data"
  by (simp add: prepare_clustering_data_def StandardScaler_fit_transform_def feature_values_def
        sample_df_def sample_data_def sample_matrix_def column_def mean_def var_def scale_def
        handle_zeros_in_scale_def upt_rec power2_eq_square)

lemma prepare_two_row_df:
  "prepare_clustering_data two_row_df =
   Inr \<lparr>features = two_row_matrix, skills = [''PYTHON'', ''SQL''], original_data = two_row_df\<rparr>"
  by (simp add: prepare_clustering_data_def StandardScaler_fit_transform_def feature_values_def
        two_row_df_def two_row_matrix_def column_def mean_def var_def scale_def
        handle_zeros_in_scale_def upt_rec power2_eq_square)

lemma prepare_constant_df:
  "prepare_clustering_data constant_df =
   Inr \<lparr>features = constant_matrix, skills = map skill_name constant_df,
        original_data = constant_df\<rparr>"
  by (simp add: prepare_clustering_data_def StandardScaler_fit_transform_def feature_values_def
        constant_df_def constant_matrix_def column_def mean_def var_def scale_def
        handle_zeros_in_scale_def upt_rec power2_eq_square numeral_eq_Suc)

section \<open>The claims\<close>

subsection \<open>C1: the search over the candidate cluster counts\<close>

text \<open>
  C1 as stated, at the scaled matrix of two skills: the claim promises that every
  candidate from 3 to 7 is evaluated and a best model returned. A \<^verbatim>\<open>KMeans\<close> that
  keeps scikit-learn's check of the row count raises at the first candidate,
  \<open>k = 3\<close>, and the search, and with it the run, ends with that exception.
\<close>

theorem find_best_k_two_rows_fails:
  "prepare_clustering_data two_row_df =
     Inr \<lparr>features = two_row_matrix, skills = [''PYTHON'', ''SQL''],
          original_data = two_row_df\<rparr> \<and>
   2 \<le> length two_row_matrix \<and>
   find_best_k sample_lloyd sample_silhouette () two_row_matrix = Inl ValueError \<and>
   clustering_run sample_lloyd sample_silhouette () two_row_df = Inl ValueError"
proof -
  have len: "2 \<le> length two_row_matrix"
    by code_simp
  have search: "find_best_k sample_lloyd sample_silhouette () two_row_matrix = Inl ValueError"
    by code_simp
  have run: "clustering_run sample_lloyd sample_silhouette () two_row_df = Inl ValueError"
    by (simp only: clustering_run_def prepare_two_row_df perform_clustering_def Let_def
          clustering_data.simps search sum.case)
  from prepare_two_row_df len search run show ?thesis by (intro conjI)
qed

text \<open>
  C1, amended: for every scaled feature matrix on which each candidate \<open>k\<close> from 3 to
  7 can be fitted and scored (score \<open>sc k\<close>), the search of \<^verbatim>\<open>perform_clustering\<close>
  goes through \<open>3, 4, 5, 6, 7\<close> in this order and ends with the highest score and
  the smallest \<open>k\<close> that reaches it, provided the highest score is above the initial
  \<open>best_score = -1\<close>; when no score is above \<open>-1\<close> it ends with the initial
  \<open>best_k = 5\<close> and \<open>best_score = -1\<close>.
\<close>

theorem find_best_k_first_highest:
  assumes "\<forall>k\<in>{3..7}. candidate_score lloyd silhouette w X k = Inr (sc k)"
  shows "search_range = [3, 4, 5, 6, 7] \<and>
         (\<exists>best_k best_score.
            find_best_k lloyd silhouette w X = Inr (best_k, best_score) \<and>
            (if \<exists>k\<in>{3..7}. - 1 < sc k
             then best_k \<in> {3..7} \<and> sc best_k = best_score \<and>
                  (\<forall>k\<in>{3..7}. sc k \<le> best_score) \<and>
                  (\<forall>k\<in>{3..7}. sc k = best_score \<longrightarrow> best_k \<le> k)
             else best_k = 5 \<and> best_score = - 1))"
  using find_best_k_result [OF assms] search_range_eq by simp

theorem find_best_k_first_highest_witness:
  "map (candidate_score sample_lloyd sample_silhouette () sample_matrix) [3, 4, 5, 6, 7]
     = [Inr (1 / 3), Inr (1 / 4), Inr (1 / 5), Inr (1 / 6), Inr (1 / 7)] \<and>
   find_best_k sample_lloyd sample_silhouette () sample_matrix = Inr (3, 1 / 3)"
proof -
  have scores: "map (candidate_score sample_lloyd sample_silhouette () sample_matrix)
                  [3, 4, 5, 6, 7]
                = [Inr (1 / 3), Inr (1 / 4), Inr (1 / 5), Inr (1 / 6), Inr (1 / 7)]"
    by code_simp
  have cases: "k = 3 \<or> k = 4 \<or> k = 5 \<or> k = 6 \<or> k = 7" if "k \<in> {3..7}" for k :: nat
    using that by auto
  have h: "\<forall>k\<in>{3..7}. candidate_score sample_lloyd sample_silhouette () sample_matrix k
                         = Inr (1 / real k)"
  proof
    fix k :: nat
    assume "k \<in> {3..7}"
    from cases [OF this] scores
    show "candidate_score sample_lloyd sample_silhouette () sample_matrix k = Inr (1 / real k)"
      by auto
  qed
  have above: "\<exists>k\<in>{3..7::nat}. - 1 < 1 / real k"
    by (rule bexI [of _ 3]) simp_all
  from find_best_k_first_highest [OF h] above obtain bk bs where
    r: "find_best_k sample_lloyd sample_silhouette () sample_matrix = Inr (bk, bs)"
    and bk: "bk \<in> {3..7}" and eq: "1 / real bk = bs"
    and ub: "\<forall>k\<in>{3..7}. 1 / real k \<le> bs"
    by auto
  from ub have "1 / real (3::nat) \<le> bs" by (rule bspec) simp
  with eq cases [OF bk] have "bk = 3" by auto
  with r eq scores show ?thesis by simp
qed

subsection \<open>C2: one feature vector per skill\<close>

text \<open>
  C2 asks for \<open>employee_count\<close> to be the number of distinct employee ids of the
  skill, for every input sequence. The Athena query of the handler computes that
  (\<open>skills_query_features\<close>). \<^verbatim>\<open>create_skill_features\<close> aggregates
  \<^verbatim>\<open>employee_id\<close> with \<^verbatim>\<open>'count'\<close>, the number of rows with an id. C2 at a
  DataFrame in which employee E1 lists PYTHON twice: \<^verbatim>\<open>create_skill_features\<close>
  reports an \<open>employee_count\<close> of 2, there is one distinct employee, and the query
  over the same rows reports 1.
\<close>

theorem create_skill_features_counts_rows:
  "map_sum id (\<lambda>r. map employee_count (fst r)) (create_skill_features sample_tfidf duplicate_records)
     = Inr [2] \<and>
   length (remdups (map employee_id duplicate_records)) = 1 \<and>
   map employee_count (skills_query duplicate_table) = [1]"
  by code_simp

subsection \<open>C3: candidates without a score\<close>

text \<open>
  C3 as stated, at nine scaled skills that are all equal. Every candidate of
  \<^verbatim>\<open>train_kmeans\<close> gets one cluster and is skipped, and \<^verbatim>\<open>train_kmeans\<close> returns
  its initial triple, no model with \<open>best_k = 5\<close> and \<open>best_score = -1\<close>, where the
  claim promises a failure. The search of \<^verbatim>\<open>perform_clustering\<close> has no skip: it
  asks for the score of the one-cluster labelling and ends with the exception of
  that call.
\<close>

theorem train_kmeans_returns_default:
  "train_kmeans sample_lloyd sample_silhouette () constant_matrix default_n_clusters_range
     = Inr (None, 5, - 1) \<and>
   find_best_k sample_lloyd sample_silhouette () constant_matrix = Inl ValueError"
  by code_simp

text \<open>
  C3, amended: in \<^verbatim>\<open>train_kmeans\<close> a candidate \<open>k\<close> whose labels have fewer than 2
  distinct values is skipped: whatever \<open>silhouette\<close> is, the loop goes on with the
  state it had; and when every candidate of the range is skipped, \<^verbatim>\<open>train_kmeans\<close>
  returns no model together with the initial \<open>best_k = 5\<close> and \<open>best_score = -1\<close>.
\<close>

theorem train_kmeans_skips_and_defaults:
  "(KMeans_fit_predict lloyd w k (Some 42) 10 X = Inr labels \<and> length (remdups labels) < 2 \<longrightarrow>
      train_loop lloyd silhouette w X (k # ks) st = train_loop lloyd silhouette w X ks st) \<and>
   ((\<forall>k\<in>set n_clusters_range.
        \<exists>labels. KMeans_fit_predict lloyd w k (Some 42) 10 X = Inr labels
                 \<and> length (remdups labels) < 2) \<longrightarrow>
      train_kmeans lloyd silhouette w X n_clusters_range = Inr (None, 5, - 1))"
  using train_loop_skip [of lloyd w k X labels silhouette ks st]
    train_loop_all_skipped [of n_clusters_range lloyd w X silhouette "(None, 5, - 1)"]
  by (simp add: train_kmeans_def)

theorem train_kmeans_skips_and_defaults_witness:
  "KMeans_fit_predict sample_lloyd () 3 (Some 42) 10 constant_matrix = Inr (replicate 9 0) \<and>
   length (remdups (replicate 9 (0::nat))) < 2 \<and>
   train_loop sample_lloyd sample_silhouette () constant_matrix (3 # [4..<10]) (None, 5, - 1)
     = train_loop sample_lloyd sample_silhouette () constant_matrix [4..<10] (None, 5, - 1) \<and>
   train_kmeans sample_lloyd sample_silhouette () constant_matrix default_n_clusters_range
     = Inr (None, 5, - 1)"
proof -
  have fit3: "KMeans_fit_predict sample_lloyd () 3 (Some 42) 10 constant_matrix = Inr (replicate 9 0)"
    by code_simp
  have one: "length (remdups (replicate 9 (0::nat))) < 2"
    by code_simp
  have "list_all (\<lambda>k. case KMeans_fit_predict sample_lloyd () k (Some 42) 10 constant_matrix of
                         Inl e \<Rightarrow> False | Inr labels \<Rightarrow> length (remdups labels) < 2)
          default_n_clusters_range"
    by code_simp
  then have all: "\<forall>k\<in>set default_n_clusters_range.
      \<exists>labels. KMeans_fit_predict sample_lloyd () k (Some 42) 10 constant_matrix = Inr labels
               \<and> length (remdups labels) < 2"
    unfolding list_all_iff
  proof (intro ballI)
    fix k
    assume "\<forall>k\<in>set default_n_clusters_range.
              case KMeans_fit_predict sample_lloyd () k (Some 42) 10 constant_matrix of
                Inl e \<Rightarrow> False | Inr labels \<Rightarrow> length (remdups labels) < 2"
      and "k \<in> set default_n_clusters_range"
    then have "case KMeans_fit_predict sample_lloyd () k (Some 42) 10 constant_matrix of
                 Inl e \<Rightarrow> False | Inr labels \<Rightarrow> length (remdups labels) < 2"
      by blast
    then show "\<exists>labels. KMeans_fit_predict sample_lloyd () k (Some 42) 10 constant_matrix
                          = Inr labels \<and> length (remdups labels) < 2"
      by (cases "KMeans_fit_predict sample_lloyd () k (Some 42) 10 constant_matrix") auto
  qed
  from train_kmeans_skips_and_defaults
         [where lloyd = sample_lloyd and w = "()" and k = 3 and X = constant_matrix
            and labels = "replicate 9 0" and silhouette = sample_silhouette
            and ks = "[4..<10]" and st = "(None, 5, - 1)"
            and n_clusters_range = default_n_clusters_range]
       fit3 one all
  show ?thesis by blast
qed

subsection \<open>C4: a dimension without variance\<close>

text \<open>
  C4 as stated, at nine skills with the same \<open>employee_count\<close>, \<open>avg_proficiency\<close>
  and \<open>avg_experience\<close>: all three dimensions have variance zero, and
  \<^verbatim>\<open>prepare_clustering_data\<close> returns, with a scaled matrix of zeros, where the claim
  promises a failure.
\<close>

theorem zero_variance_is_accepted:
  "prepare_clustering_data constant_df =
     Inr \<lparr>features = constant_matrix, skills = map skill_name constant_df,
          original_data = constant_df\<rparr> \<and>
   map (\<lambda>d. var (column (feature_values constant_df) d)) [0, 1, 2] = [0, 0, 0]"
proof -
  have "map (\<lambda>d. var (column (feature_values constant_df) d)) [0, 1, 2] = [0, 0, 0]"
    by code_simp
  with prepare_constant_df show ?thesis by simp
qed

text \<open>
  C4, amended: for every non-empty feature table in which a numeric dimension \<open>d\<close>
  has zero variance, the scaling does not fail: the scale of that dimension is taken
  as 1, and \<^verbatim>\<open>prepare_clustering_data\<close> returns scaled features whose value in
  dimension \<open>d\<close> is 0 for every skill.
\<close>

theorem zero_variance_is_patched:
  assumes "df \<noteq> []" and "d < 3" and "var (column (feature_values df) d) = 0"
  shows "\<exists>data. prepare_clustering_data df = Inr data \<and>
                original_data data = df \<and>
                scale (column (feature_values df) d) = 1 \<and>
                (\<forall>row\<in>set (features data). row ! d = 0)"
proof -
  let ?X = "feature_values df"
  let ?Z = "map (\<lambda>row. map (\<lambda>d. (row ! d - mean (column ?X d)) / scale (column ?X d))
                               [0..<length row]) ?X"
  from assms(1) have ne: "?X \<noteq> []" by (simp add: feature_values_def)
  then have p: "prepare_clustering_data df =
      Inr \<lparr>features = ?Z, skills = map skill_name df, original_data = df\<rparr>"
    by (simp add: prepare_clustering_data_def StandardScaler_fit_transform_def)
  have len: "\<forall>row\<in>set ?X. length row = 3" by (auto simp: feature_values_def)
  have cne: "column ?X d \<noteq> []" using ne by (simp add: column_def)
  have z: "row ! d = 0" if "row \<in> set ?Z" for row
  proof -
    from that obtain r where r: "r \<in> set ?X"
      and row: "row = map (\<lambda>d. (r ! d - mean (column ?X d)) / scale (column ?X d)) [0..<length r]"
      by auto
    from r len have "length r = 3" by blast
    with assms(2) row have "row ! d = (r ! d - mean (column ?X d)) / scale (column ?X d)"
      by simp
    moreover from r have "r ! d \<in> set (column ?X d)" by (auto simp: column_def)
    then have "r ! d = mean (column ?X d)"
      using var_zero_all_mean [OF cne assms(3)] by blast
    ultimately show ?thesis by simp
  qed
  from p z scale_zero_variance [OF assms(3)] show ?thesis by auto
qed

theorem zero_variance_is_patched_witness:
  "constant_df \<noteq> [] \<and> var (column (feature_values constant_df) 0) = 0 \<and>
   scale (column (feature_values constant_df) 0) = 1 \<and>
   (\<exists>data. prepare_clustering_data constant_df = Inr data \<and>
           map (\<lambda>row. row ! 0) (features data) = replicate 9 0)"
proof -
  have ne: "constant_df \<noteq> []" by code_simp
  have v: "var (column (feature_values constant_df) 0) = 0" by code_simp
  from zero_variance_is_patched [OF ne _ v, of ] obtain data where
    p: "prepare_clustering_data constant_df = Inr data"
    and s: "scale (column (feature_values constant_df) 0) = 1"
    and z: "\<forall>row\<in>set (features data). row ! 0 = 0"
    by auto
  from p prepare_constant_df have "length (features data) = 9"
    by (auto simp: constant_matrix_def)
  with z have "map (\<lambda>row. row ! 0) (features data) = replicate 9 0"
    by (metis (mono_tags, lifting) map_eq_conv map_replicate_const)
  with ne v s p show ?thesis by blast
qed

subsection \<open>C5: records with a missing field\<close>

text \<open>
  C5 as stated, at a DataFrame with three rows, one without
  \<^verbatim>\<open>proficiency_score\<close>, one without \<^verbatim>\<open>employee_id\<close> and \<^verbatim>\<open>years_experience\<close>, one
  without \<^verbatim>\<open>skill\<close>: \<^verbatim>\<open>create_skill_features\<close> returns a feature vector for PYTHON
  and raises nothing. In the ETL job a missing proficiency and an unlisted one both
  become the score 2.
\<close>

theorem missing_fields_are_accepted:
  "map_sum id fst (create_skill_features sample_tfidf incomplete_records)
     = Inr [incomplete_features] \<and>
   proficiency_score_of None = 2 \<and>
   proficiency_score_of (Some ''GURU'') = 2"
  by code_simp

text \<open>
  C5, amended: a record with a missing field does not make
  \<^verbatim>\<open>create_skill_features\<close> fail; the only exception it can end with is the one of
  the TF-IDF step. Its feature table has one row per skill that occurs, a row without
  skill belongs to no group, \<open>employee_count\<close> counts the rows of the skill that have
  an \<^verbatim>\<open>employee_id\<close>, and each average is the mean of the values present (NaN when
  there is none). Upstream, the ETL job gives every proficiency other than the four
  listed words, a missing one included, the score 2.
\<close>

theorem missing_fields_are_skipped:
  "(create_skill_features tfidf_fit_transform df = Inl e \<longrightarrow>
      tfidf_fit_transform (map skill_name (skill_agg df)) = Inl e) \<and>
   (create_skill_features tfidf_fit_transform df = Inr out \<longrightarrow> fst out = skill_agg df) \<and>
   distinct (map skill_name (skill_agg df)) \<and>
   set (map skill_name (skill_agg df)) = {s. Some s \<in> skill ` set df} \<and>
   (\<forall>v\<in>set (skill_agg df).
      let rows = filter (\<lambda>r. skill r = Some (skill_name v)) df in
        employee_count v = int (length (filter (\<lambda>r. employee_id r \<noteq> None) rows)) \<and>
        avg_proficiency v = agg_mean (map proficiency_score rows) \<and>
        avg_experience v = agg_mean (map years_experience rows)) \<and>
   (proficiency \<notin> {Some ''BEGINNER'', Some ''INTERMEDIATE'', Some ''ADVANCED'', Some ''EXPERT''}
      \<longrightarrow> proficiency_score_of proficiency = 2)"
proof -
  have a: "create_skill_features tfidf_fit_transform df = Inl e \<longrightarrow>
      tfidf_fit_transform (map skill_name (skill_agg df)) = Inl e"
    by (auto simp: create_skill_features_def Let_def split: sum.splits prod.splits)
  have b: "create_skill_features tfidf_fit_transform df = Inr out \<longrightarrow> fst out = skill_agg df"
    by (auto simp: create_skill_features_def Let_def split: sum.splits prod.splits)
  have names: "map skill_name (skill_agg df) = sorted_list_of_set {s. Some s \<in> skill ` set df}"
    by (simp add: skill_agg_eq comp_def)
  have c: "distinct (map skill_name (skill_agg df))"
    and d: "set (map skill_name (skill_agg df)) = {s. Some s \<in> skill ` set df}"
    using finite_skill_keys [of df] by (simp_all add: names)
  have e: "\<forall>v\<in>set (skill_agg df).
      let rows = filter (\<lambda>r. skill r = Some (skill_name v)) df in
        employee_count v = int (length (filter (\<lambda>r. employee_id r \<noteq> None) rows)) \<and>
        avg_proficiency v = agg_mean (map proficiency_score rows) \<and>
        avg_experience v = agg_mean (map years_experience rows)"
    unfolding skill_agg_eq by (auto simp: Let_def agg_count_def filter_map comp_def)
  have f: "proficiency \<notin> {Some ''BEGINNER'', Some ''INTERMEDIATE'', Some ''ADVANCED'', Some ''EXPERT''}
      \<longrightarrow> proficiency_score_of proficiency = 2"
    by (simp add: proficiency_score_of_def)
  from a b c d e f show ?thesis by blast
qed

theorem missing_fields_are_skipped_witness:
  "create_skill_features sample_tfidf incomplete_records
     = Inr ([incomplete_features], [[Some 1, Some 3, Some 5]], [[1]], [''PYTHON'']) \<and>
   incomplete_features \<in> set (skill_agg incomplete_records) \<and>
   employee_count incomplete_features = 1 \<and>
   map employee_id (filter (\<lambda>r. skill r = Some ''PYTHON'') incomplete_records) = [Some ''E1'', None] \<and>
   Some ''GURU'' \<notin> {Some ''BEGINNER'', Some ''INTERMEDIATE'', Some ''ADVANCED'', Some ''EXPERT''} \<and>
   proficiency_score_of (Some ''GURU'') = 2"
proof -
  have run: "create_skill_features sample_tfidf incomplete_records
     = Inr ([incomplete_features], [[Some 1, Some 3, Some 5]], [[1]], [''PYTHON''])"
    by code_simp
  have ids: "map employee_id (filter (\<lambda>r. skill r = Some ''PYTHON'') incomplete_records)
               = [Some ''E1'', None]"
    by code_simp
  have guru: "Some ''GURU'' \<notin> {Some ''BEGINNER'', Some ''INTERMEDIATE'', Some ''ADVANCED'', Some ''EXPERT''}"
    by simp
  note inst = missing_fields_are_skipped
    [where tfidf_fit_transform = sample_tfidf and df = incomplete_records
       and out = "([incomplete_features], [[Some 1, Some 3, Some 5]], [[1]], [''PYTHON''])"
       and proficiency = "Some ''GURU''"]
  note out_agg = inst [THEN conjunct2, THEN conjunct1]
  note rows = inst [THEN conjunct2, THEN conjunct2, THEN conjunct2, THEN conjunct2, THEN conjunct1]
  note default = inst [THEN conjunct2, THEN conjunct2, THEN conjunct2, THEN conjunct2, THEN conjunct2]
  from out_agg run have agg: "skill_agg incomplete_records = [incomplete_features]"
    by (simp only: fst_conv)
  then have mem: "incomplete_features \<in> set (skill_agg incomplete_records)"
    by (simp only: list.set insertI1)
  from bspec [OF rows mem] have
    "employee_count incomplete_features =
       int (length (filter (\<lambda>r. employee_id r \<noteq> None)
              (filter (\<lambda>r. skill r = Some (skill_name incomplete_features)) incomplete_records)))"
    by (simp only: Let_def)
  also have "\<dots> = 1" by code_simp
  finally have cnt: "employee_count incomplete_features = 1" .
  from default guru have score: "proficiency_score_of (Some ''GURU'') = 2" by (rule mp)
  from run mem cnt ids guru score show ?thesis by (intro conjI)
qed

subsection \<open>C6: determinism\<close>

text \<open>
  C6: two runs on the same matrix, with the same candidates, give the same chosen
  \<open>k\<close>, the same assignments and the same score. Every \<^verbatim>\<open>KMeans\<close> the code builds,
  in the search of \<^verbatim>\<open>perform_clustering\<close>, in its final fit and in \<^verbatim>\<open>train_kmeans\<close>,
  is given \<^verbatim>\<open>random_state=42\<close>, so no result depends on the state \<open>w\<close> of the
  process-wide generator, the one thing that differs between two runs.
\<close>

theorem cluster_selection_deterministic:
  "find_best_k lloyd silhouette w X = find_best_k lloyd silhouette w' X \<and>
   perform_clustering lloyd silhouette w data = perform_clustering lloyd silhouette w' data \<and>
   train_kmeans lloyd silhouette w X ks = train_kmeans lloyd silhouette w' X ks"
proof -
  have a: "find_best_k lloyd silhouette w Y = find_best_k lloyd silhouette w' Y" for Y
    unfolding find_best_k_def by (rule k_search_seeded)
  have b: "KMeans_fit_predict lloyd w k (Some 42) 10 Y =
           KMeans_fit_predict lloyd w' k (Some 42) 10 Y" for k Y
    by (rule KMeans_fit_predict_seeded)
  have c: "perform_clustering lloyd silhouette w data =
           perform_clustering lloyd silhouette w' data"
    by (simp add: perform_clustering_def Let_def a b [of _ "features data"]
             split: sum.splits prod.splits)
  have d: "train_kmeans lloyd silhouette w X ks = train_kmeans lloyd silhouette w' X ks"
    unfolding train_kmeans_def by (rule train_loop_seeded)
  from a [of X] c d show ?thesis by simp
qed

subsection \<open>C7: the cluster summaries\<close>



subsection \<open>C8: the output of a successful run\<close>

text \<open>
  C8: let the DataFrame of the handler hold the rows of the Athena query over the
  table, in any order. When preparing and clustering it succeeds, every skill of the
  table is in exactly one row of the result table, every \<open>cluster_id\<close> of the result
  table is in exactly one row of the statistics, and the \<open>num_skills\<close> of the
  statistics add up to the number of distinct skills of the table.
\<close>

theorem run_output_invariants:
  assumes query: "mset skills_data = mset (skills_query tbl)"
    and run: "clustering_run lloyd silhouette w skills_data = Inr out"
  shows "distinct (map skill_name (result_df out)) \<and>
         set (map skill_name (result_df out)) = skill ` set tbl \<and>
         (\<forall>r\<in>set (result_df out).
            length (filter (\<lambda>s. stat_cluster_id s = cluster_id r) (cluster_stats out)) = 1) \<and>
         sum_list (map num_skills (cluster_stats out)) = int (card (skill ` set tbl))"
proof -
  from run obtain labels where
    len: "length labels = length skills_data"
    and df: "result_df out = add_cluster_id skills_data labels"
    and stats: "cluster_stats out = cluster_stats_of (result_df out)"
    by (rule clustering_run_Inr) simp
  from query have names: "mset (map skill_name skills_data) = mset (sorted_list_of_set (skill ` set tbl))"
    by (metis mset_map skills_query_names)
  have n1: "map skill_name (result_df out) = map skill_name skills_data"
    using len df by (simp add: add_cluster_id_names)
  have d: "distinct (map skill_name skills_data)"
    using names by (metis distinct_sorted_list_of_set mset_eq_imp_distinct_iff)
  have s: "set (map skill_name skills_data) = skill ` set tbl"
    using names by (metis List.finite_set finite_imageI mset_eq_setD set_sorted_list_of_set)
  have l: "length skills_data = card (skill ` set tbl)"
  proof -
    from names have "length (map skill_name skills_data) = length (sorted_list_of_set (skill ` set tbl))"
      by (rule mset_eq_length)
    then show ?thesis by simp
  qed
  have once: "\<forall>r\<in>set (result_df out).
            length (filter (\<lambda>s. stat_cluster_id s = cluster_id r) (cluster_stats out)) = 1"
  proof
    fix r assume "r \<in> set (result_df out)"
    then have "cluster_id r \<in> stat_cluster_id ` set (cluster_stats out)"
      using stat_cluster_ids [of "result_df out"] stats
      by (metis List.finite_set imageI set_map set_sorted_list_of_set)
    moreover have "distinct (map stat_cluster_id (cluster_stats out))"
      by (simp add: stats stat_cluster_ids)
    ultimately show "length (filter (\<lambda>s. stat_cluster_id s = cluster_id r) (cluster_stats out)) = 1"
      by (rule once_in_distinct [rotated])
  qed
  have total: "sum_list (map num_skills (cluster_stats out)) = int (card (skill ` set tbl))"
    using len df l by (simp add: stats sum_num_skills add_cluster_id_def)
  from n1 d s once total show ?thesis by simp
qed

theorem run_output_invariants_witness:
  "mset sample_df = mset (skills_query sample_table) \<and>
   (\<exists>out. clustering_run sample_lloyd sample_silhouette () sample_df = Inr out \<and>
          map skill_name (result_df out)
            = [''AWS'', ''DOCKER'', ''EXCEL'', ''GIT'', ''JAVA'', ''LINUX'', ''PYTHON'', ''SQL''] \<and>
          map cluster_id (result_df out) = [0, 1, 2, 0, 1, 2, 0, 1] \<and>
          map stat_cluster_id (cluster_stats out) = [0, 1, 2] \<and>
          map num_skills (cluster_stats out) = [3, 3, 2] \<and>
          distinct (map skill_name (result_df out)) \<and>
          sum_list (map num_skills (cluster_stats out)) = int (card (skill ` set sample_table)))"
proof -
  let ?run = "perform_clustering sample_lloyd sample_silhouette () sample_data"
  let ?P = "\<lambda>out.
      map skill_name (result_df out)
        = [''AWS'', ''DOCKER'', ''EXCEL'', ''GIT'', ''JAVA'', ''LINUX'', ''PYTHON'', ''SQL''] \<and>
      map cluster_id (result_df out) = [0, 1, 2, 0, 1, 2, 0, 1] \<and>
      map stat_cluster_id (cluster_stats out) = [0, 1, 2] \<and>
      map num_skills (cluster_stats out) = [3, 3, 2]"
  have query: "mset sample_df = mset (skills_query sample_table)"
    by (simp only: skills_query_sample_table)
  have ev: "case ?run of Inl e \<Rightarrow> False | Inr out \<Rightarrow> ?P out"
    by code_simp
  have same: "clustering_run sample_lloyd sample_silhouette () sample_df = ?run"
    by (simp only: clustering_run_def prepare_sample_df sum.case)
  obtain out where out: "?run = Inr out" and vals: "?P out"
  proof (cases ?run)
    case (Inl e)
    with ev show ?thesis by (simp only: sum.case)
  next
    case (Inr out)
    with ev have "?P out" by (simp only: sum.case)
    with Inr show ?thesis by (rule that)
  qed
  from out same have run: "clustering_run sample_lloyd sample_silhouette () sample_df = Inr out"
    by (simp only:)
  note inv = run_output_invariants [OF query run]
  note d = inv [THEN conjunct1]
  note t = inv [THEN conjunct2, THEN conjunct2, THEN conjunct2]
  note v1 = vals [THEN conjunct1]
  note v2 = vals [THEN conjunct2, THEN conjunct1]
  note v3 = vals [THEN conjunct2, THEN conjunct2, THEN conjunct1]
  note v4 = vals [THEN conjunct2, THEN conjunct2, THEN conjunct2]
  show ?thesis
    by (intro conjI exI [of _ out]) (rule query run v1 v2 v3 v4 d t)+
qed

subsection \<open>C9: reordering the input\<close>



subsection \<open>C10: the reported score belongs to the stored labels\<close>



end
